theory Spec2Isabelle
  imports Main "HOL-Library.Word"
begin

section \<open>JavaScript values used by the component\<close>

text \<open>
  A JavaScript string is a sequence of UTF-16 code units. Literals of the source are
  ASCII and are written with \<open>str\<close>.
\<close>

type_synonym jsstring = "16 word list"

definition str :: "string \<Rightarrow> jsstring" where
  "str cs = map of_char cs"

text \<open>
  \<open>String.prototype.trim\<close> removes WhiteSpace and LineTerminator code points from both
  ends: TAB, LF, VT, FF, CR, SP, NBSP, U+1680, U+2000..U+200A, U+2028, U+2029, U+202F,
  U+205F, U+3000 and U+FEFF.
\<close>

definition is_ws :: "16 word \<Rightarrow> bool" where
  "is_ws c \<longleftrightarrow>
     c = 0x9 \<or> c = 0xA \<or> c = 0xB \<or> c = 0xC \<or> c = 0xD \<or> c = 0x20 \<or> c = 0xA0 \<or>
     c = 0x1680 \<or> (0x2000 \<le> c \<and> c \<le> 0x200A) \<or> c = 0x2028 \<or> c = 0x2029 \<or>
     c = 0x202F \<or> c = 0x205F \<or> c = 0x3000 \<or> c = 0xFEFF"

definition js_trim :: "jsstring \<Rightarrow> jsstring" where
  "js_trim s = rev (dropWhile is_ws (rev (dropWhile is_ws s)))"

text \<open>\<open>String.prototype.includes\<close>: the argument occurs as a contiguous substring.\<close>

fun starts_with :: "jsstring \<Rightarrow> jsstring \<Rightarrow> bool" where
  "starts_with s [] = True"
| "starts_with [] (p # ps) = False"
| "starts_with (c # cs) (p # ps) = (c = p \<and> starts_with cs ps)"

fun js_includes :: "jsstring \<Rightarrow> jsstring \<Rightarrow> bool" where
  "js_includes [] sub = starts_with [] sub"
| "js_includes (c # cs) sub = (starts_with (c # cs) sub \<or> js_includes cs sub)"

text \<open>
  The numbers of the component are integer counters. \<open>dailyRequests\<close> is also fed by
  \<open>parseInt\<close>, which yields \<open>NaN\<close> on text without a leading integer, so it carries that
  value; integers are exact (the rounding of doubles beyond \<open>2^53\<close> and the exponent
  notation of \<open>toString\<close> from \<open>10^21\<close> on are outside the model).
\<close>

datatype jsnum = Num int | NaN

fun num_ge :: "jsnum \<Rightarrow> int \<Rightarrow> bool" where
  "num_ge (Num n) k = (k \<le> n)"
| "num_ge NaN k = False"

fun num_lt :: "jsnum \<Rightarrow> int \<Rightarrow> bool" where
  "num_lt (Num n) k = (n < k)"
| "num_lt NaN k = False"

fun num_plus1 :: "jsnum \<Rightarrow> jsnum" where
  "num_plus1 (Num n) = Num (n + 1)"
| "num_plus1 NaN = NaN"

function nat_toString :: "nat \<Rightarrow> jsstring" where
  "nat_toString n =
     (if n < 10 then [of_nat (48 + n)]
      else nat_toString (n div 10) @ [of_nat (48 + n mod 10)])"
  by pat_completeness auto
termination
  by (relation "measure (\<lambda>n. n)") auto

declare nat_toString.simps [simp del]

definition int_toString :: "int \<Rightarrow> jsstring" where
  "int_toString i = (if i < 0 then 0x2D # nat_toString (nat (- i)) else nat_toString (nat i))"

fun num_toString :: "jsnum \<Rightarrow> jsstring" where
  "num_toString (Num n) = int_toString n"
| "num_toString NaN = str ''NaN''"

text \<open>
  \<open>parseInt(s, 10)\<close>: skip leading white space, read an optional sign, then the longest
  run of decimal digits; no digit gives \<open>NaN\<close>.
\<close>

definition is_digit :: "16 word \<Rightarrow> bool" where
  "is_digit c \<longleftrightarrow> 0x30 \<le> c \<and> c \<le> 0x39"

definition digits_value :: "jsstring \<Rightarrow> int" where
  "digits_value ds = foldl (\<lambda>acc c. acc * 10 + (uint c - 48)) 0 ds"

definition parseInt10 :: "jsstring \<Rightarrow> jsnum" where
  "parseInt10 s =
     (let t = dropWhile is_ws s;
          neg = (case t of [] \<Rightarrow> False | c # cs \<Rightarrow> c = 0x2D);
          r = (case t of [] \<Rightarrow> [] | c # cs \<Rightarrow> if c = 0x2D \<or> c = 0x2B then cs else t);
          ds = takeWhile is_digit r
      in if ds = [] then NaN
         else Num ((if neg then - 1 else 1) * digits_value ds))"

section \<open>types.ts and constants.ts\<close>

datatype TTSStatus = IDLE | GENERATING | SUCCESS | ERROR

record GeneratedAudio =
  wavUrl :: jsstring
  base64Audio :: jsstring

datatype gender = Male | Female

record VoiceOption =
  voice_id :: jsstring
  voice_name :: jsstring
  voice_gender :: gender
  description :: jsstring
  realVoiceId :: jsstring

definition VOICES :: "VoiceOption list" where
  "VOICES =
     [\<lparr>voice_id = str ''Aoede'', voice_name = str ''Aoede'', voice_gender = Female,
       description = str ''Experienced, professional, and confident.'',
       realVoiceId = str ''Aoede''\<rparr>,
      \<lparr>voice_id = str ''Kore'', voice_name = str ''Kore'', voice_gender = Female,
       description = str ''Calm, reassuring, and soothing.'',
       realVoiceId = str ''Kore''\<rparr>,
      \<lparr>voice_id = str ''Male_7'', voice_name = str ''Charles (Formal)'', voice_gender = Male,
       description = str ''Formal, precise, business-oriented.'',
       realVoiceId = str ''Charon''\<rparr>,
      \<lparr>voice_id = str ''Male_10'', voice_name = str ''Chris (Calm)'', voice_gender = Male,
       description = str ''Steady, low-pitch, relaxing.'',
       realVoiceId = str ''Charon''\<rparr>]"

section \<open>The App component\<close>

definition DAILY_REQUEST_LIMIT :: int where
  "DAILY_REQUEST_LIMIT = 1500"

definition MINUTE_REQUEST_LIMIT :: int where
  "MINUTE_REQUEST_LIMIT = 15"

text \<open>
  The component's \<open>useState\<close> cells, together with the browser's \<open>localStorage\<close>, which
  the handlers read and write. The store is a map from keys to strings whose
  \<open>getItem\<close>, \<open>setItem\<close> and \<open>removeItem\<close> always succeed (a full or disabled store,
  where they throw, is outside the model). \<open>console.error\<close> is not modelled.
\<close>

record app_state =
  selectedVoice :: jsstring
  text_input :: jsstring
  targetDuration :: jsstring
  status :: TTSStatus
  generatedAudio :: "GeneratedAudio option"
  errorMsg :: "jsstring option"
  dailyRequests :: jsnum
  minuteRequests :: int
  secondsUntilReset :: int
  localStorage :: "jsstring \<rightharpoonup> jsstring"

text \<open>\<open>VOICES.find(v => v.id === "Kore")?.id || VOICES[0].id\<close>\<close>

definition defaultVoice :: jsstring where
  "defaultVoice =
     (case find (\<lambda>v. voice_id v = str ''Kore'') VOICES of
        Some v \<Rightarrow> if voice_id v \<noteq> [] then voice_id v else voice_id (hd VOICES)
      | None \<Rightarrow> voice_id (hd VOICES))"

definition initial_state :: "(jsstring \<rightharpoonup> jsstring) \<Rightarrow> app_state" where
  "initial_state store =
     \<lparr>selectedVoice = defaultVoice, text_input = [], targetDuration = [], status = IDLE,
      generatedAudio = None, errorMsg = None, dailyRequests = Num 0, minuteRequests = 0,
      secondsUntilReset = 60, localStorage = store\<rparr>"

text \<open>
  \<open>today\<close> stands for \<open>new Date().toISOString().split('T')[0]\<close>, read from the clock by
  the caller at the moment the source evaluates it.
\<close>

definition storageKey :: "jsstring \<Rightarrow> jsstring" where
  "storageKey today = str ''gemini_tts_usage_'' @ today"

text \<open>The mount effect, part 1: load the daily usage (a stored empty string is falsy).\<close>

definition loadDailyUsage :: "jsstring \<Rightarrow> app_state \<Rightarrow> app_state" where
  "loadDailyUsage today s =
     (case localStorage s (storageKey today) of
        Some savedUsage \<Rightarrow>
          if savedUsage \<noteq> [] then s\<lparr>dailyRequests := parseInt10 savedUsage\<rparr>
          else s\<lparr>dailyRequests := Num 0\<rparr>
      | None \<Rightarrow> s\<lparr>dailyRequests := Num 0\<rparr>)"

definition mount :: "jsstring \<Rightarrow> (jsstring \<rightharpoonup> jsstring) \<Rightarrow> app_state" where
  "mount today store = loadDailyUsage today (initial_state store)"

text \<open>The mount effect, part 2: one firing of the 1000 ms interval.\<close>

definition tick :: "app_state \<Rightarrow> app_state" where
  "tick s =
     (if secondsUntilReset s \<le> 1 then s\<lparr>minuteRequests := 0, secondsUntilReset := 60\<rparr>
      else s\<lparr>secondsUntilReset := secondsUntilReset s - 1\<rparr>)"

text \<open>
  \<open>incrementUsage\<close> is a closure of the render in which \<open>handleGenerate\<close> was invoked: its
  \<open>dailyRequests\<close> is the value of that render (the first argument), while the minute
  count is updated functionally from the state current when it runs.
\<close>

definition incrementUsage :: "jsnum \<Rightarrow> jsstring \<Rightarrow> app_state \<Rightarrow> app_state" where
  "incrementUsage captured today s =
     (let newDailyCount = num_plus1 captured
      in s\<lparr>dailyRequests := newDailyCount,
           localStorage := (localStorage s)(storageKey today \<mapsto> num_toString newDailyCount),
           minuteRequests := minuteRequests s + 1\<rparr>)"

text \<open>
  \<open>handleGenerate\<close> suspends at \<open>await generateSpeech(text, selectedVoice)\<close>.
  \<open>handleGenerate_begin\<close> is the part before the call; it returns the new state and,
  when the call is made, its arguments with the captured \<open>dailyRequests\<close>.
  \<open>handleGenerate_settle\<close> is the part after the promise settles, run on the state
  current at that moment.
\<close>

record pending_call =
  call_text :: jsstring
  call_voice :: jsstring
  captured_daily :: jsnum

text \<open>
  The promise of \<open>generateSpeech\<close> may reject with any value (\<open>catch (err: any)\<close>).
  \<open>js_value\<close> are the values of a property; \<open>PlainObject\<close> stands for any value that
  is neither nullish nor a string and has no callable \<open>includes\<close> (an object, a
  symbol, a function), and a number that is not an integer behaves as a \<open>Number\<close>
  other than 429. A rejection is such a value itself, or an object given by its
  \<open>message\<close> and \<open>status\<close> properties. Property values that bring their own
  \<open>includes\<close> (arrays) or getters are outside the model.
\<close>

datatype js_value = Undefined | Null | Str jsstring | Number int | Boolean bool | PlainObject

datatype js_thrown = Value js_value | ErrorObject js_value js_value

datatype js_exn = TypeError

datatype outcome = Resolved GeneratedAudio | Rejected js_thrown

definition MSG_EMPTY :: jsstring where
  "MSG_EMPTY = str ''Please enter some text to generate speech.''"

definition MSG_DAILY :: jsstring where
  "MSG_DAILY = str ''Daily limit reached (1500). Please try tomorrow or use a paid key.''"

definition MSG_MINUTE :: "int \<Rightarrow> jsstring" where
  "MSG_MINUTE secs =
     str ''Speed limit reached! Please wait '' @ int_toString secs @
     str '' seconds for the minute quota to reset.''"

definition MSG_QUOTA :: jsstring where
  "MSG_QUOTA = str ''Quota exceeded (429). The system is busy. Please wait a moment.''"

definition MSG_FAILED :: jsstring where
  "MSG_FAILED = str ''Failed to generate speech. Please try again.''"

definition handleGenerate_begin :: "app_state \<Rightarrow> app_state \<times> pending_call option" where
  "handleGenerate_begin s =
     (if js_trim (text_input s) = [] then (s\<lparr>errorMsg := Some MSG_EMPTY\<rparr>, None)
      else if num_ge (dailyRequests s) DAILY_REQUEST_LIMIT then
        (s\<lparr>errorMsg := Some MSG_DAILY\<rparr>, None)
      else if minuteRequests s \<ge> MINUTE_REQUEST_LIMIT then
        (s\<lparr>errorMsg := Some (MSG_MINUTE (secondsUntilReset s))\<rparr>, None)
      else
        (s\<lparr>errorMsg := None, status := GENERATING, generatedAudio := None\<rparr>,
         Some \<lparr>call_text = text_input s, call_voice = selectedVoice s,
               captured_daily = dailyRequests s\<rparr>))"

text \<open>
  \<open>err.message\<close> and \<open>err.status\<close>: reading a property of \<open>null\<close> or \<open>undefined\<close>
  throws; a string, number or boolean has neither property.
\<close>

fun prop_message :: "js_thrown \<Rightarrow> js_exn + js_value" where
  "prop_message (Value Undefined) = Inl TypeError"
| "prop_message (Value Null) = Inl TypeError"
| "prop_message (Value v) = Inr Undefined"
| "prop_message (ErrorObject m st) = Inr m"

fun prop_status :: "js_thrown \<Rightarrow> js_exn + js_value" where
  "prop_status (Value Undefined) = Inl TypeError"
| "prop_status (Value Null) = Inl TypeError"
| "prop_status (Value v) = Inr Undefined"
| "prop_status (ErrorObject m st) = Inr st"

text \<open>
  \<open>m?.includes(x)\<close>: \<open>undefined\<close> (falsy) on a nullish \<open>m\<close>, the substring test on a
  string, and a \<open>TypeError\<close> on any other value, whose \<open>includes\<close> is not a function.
\<close>

fun opt_includes :: "js_value \<Rightarrow> jsstring \<Rightarrow> js_exn + bool" where
  "opt_includes Undefined x = Inr False"
| "opt_includes Null x = Inr False"
| "opt_includes (Str m) x = Inr (js_includes m x)"
| "opt_includes (Number n) x = Inl TypeError"
| "opt_includes (Boolean b) x = Inl TypeError"
| "opt_includes PlainObject x = Inl TypeError"

text \<open>
  \<open>err.message?.includes('429') || err.status === 429 ||
  err.message?.includes('RESOURCE_EXHAUSTED')\<close>, evaluated from left to right.
\<close>

definition is_quota_error :: "js_thrown \<Rightarrow> js_exn + bool" where
  "is_quota_error err =
     (case prop_message err of
        Inl e \<Rightarrow> Inl e
      | Inr m \<Rightarrow>
          (case opt_includes m (str ''429'') of
             Inl e \<Rightarrow> Inl e
           | Inr True \<Rightarrow> Inr True
           | Inr False \<Rightarrow>
               (case prop_status err of
                  Inl e \<Rightarrow> Inl e
                | Inr st \<Rightarrow>
                    if st = Number 429 then Inr True
                    else (case prop_message err of
                            Inl e \<Rightarrow> Inl e
                          | Inr m' \<Rightarrow> opt_includes m' (str ''RESOURCE_EXHAUSTED'')))))"

text \<open>
  The \<open>catch\<close> block. The second component is the exception that escapes it, if any; the
  state updates made before the throw stay. In the last branch
  (\<open>err.message || "Failed to generate speech. Please try again."\<close>) a message that is
  not a string or nullish cannot occur: the test before it has thrown.
\<close>

definition handleGenerate_catch :: "js_thrown \<Rightarrow> app_state \<Rightarrow> app_state \<times> js_exn option" where
  "handleGenerate_catch err s =
     (let s1 = s\<lparr>status := ERROR\<rparr>
      in case is_quota_error err of
           Inl e \<Rightarrow> (s1, Some e)
         | Inr True \<Rightarrow> (s1\<lparr>errorMsg := Some MSG_QUOTA\<rparr>, None)
         | Inr False \<Rightarrow>
             (case prop_message err of
                Inr (Str m) \<Rightarrow>
                  (s1\<lparr>errorMsg := Some (if m \<noteq> [] then m else MSG_FAILED)\<rparr>, None)
              | Inr Undefined \<Rightarrow> (s1\<lparr>errorMsg := Some MSG_FAILED\<rparr>, None)
              | Inr Null \<Rightarrow> (s1\<lparr>errorMsg := Some MSG_FAILED\<rparr>, None)
              | Inr v \<Rightarrow> (s1, Some TypeError)
              | Inl e \<Rightarrow> (s1, Some e)))"

definition handleGenerate_settle ::
  "pending_call \<Rightarrow> jsstring \<Rightarrow> outcome \<Rightarrow> app_state \<Rightarrow> app_state" where
  "handleGenerate_settle p today out s =
     (case out of
        Resolved result \<Rightarrow>
          incrementUsage (captured_daily p) today
            (s\<lparr>generatedAudio := Some result, status := SUCCESS\<rparr>)
      | Rejected err \<Rightarrow> fst (handleGenerate_catch err s))"

text \<open>
  A whole cycle with nothing in between: \<open>synth\<close> is the \<open>generateSpeech\<close> collaborator,
  called only when admission passes.
\<close>

definition handleGenerate ::
  "(jsstring \<Rightarrow> jsstring \<Rightarrow> outcome) \<Rightarrow> jsstring \<Rightarrow> app_state \<Rightarrow> app_state" where
  "handleGenerate synth today s =
     (case handleGenerate_begin s of
        (s', None) \<Rightarrow> s'
      | (s', Some p) \<Rightarrow> handleGenerate_settle p today (synth (call_text p) (call_voice p)) s')"

text \<open>
  \<open>handleChangeApiKey\<close>: \<open>window.aistudio?.openSelectKey\<close> may be absent; when present,
  the awaited call completes or rejects (then the rest of the handler does not run).
  The second component is the \<open>alert\<close> shown, if any.
\<close>

datatype key_facility = Unavailable | Available bool

definition MSG_KEY_UPDATED :: jsstring where
  "MSG_KEY_UPDATED = str ''API Key updated. Usage counters have been reset.''"

definition MSG_KEY_UNAVAILABLE :: jsstring where
  "MSG_KEY_UNAVAILABLE = str ''API Key selection is not available in this environment.''"

fun handleChangeApiKey ::
  "key_facility \<Rightarrow> jsstring \<Rightarrow> app_state \<Rightarrow> app_state \<times> jsstring option" where
  "handleChangeApiKey (Available True) today s =
     (s\<lparr>errorMsg := None, status := IDLE, dailyRequests := Num 0, minuteRequests := 0,
        secondsUntilReset := 60,
        localStorage := (localStorage s)(storageKey today := None)\<rparr>,
      Some MSG_KEY_UPDATED)"
| "handleChangeApiKey (Available False) today s = (s, None)"
| "handleChangeApiKey Unavailable today s = (s, Some MSG_KEY_UNAVAILABLE)"




text \<open>\<open>handleTextChange\<close>: a non-empty error message is dismissed by typing.\<close>

definition handleTextChange :: "jsstring \<Rightarrow> app_state \<Rightarrow> app_state" where
  "handleTextChange v s =
     (let s1 = s\<lparr>text_input := v\<rparr>
      in case errorMsg s of
           Some m \<Rightarrow> if m \<noteq> [] then s1\<lparr>errorMsg := None\<rparr> else s1
         | None \<Rightarrow> s1)"

section \<open>Runs of the component\<close>

text \<open>\<open>ticks n\<close> is \<open>n\<close> consecutive firings of the interval with nothing in between.\<close>

primrec ticks :: "nat \<Rightarrow> app_state \<Rightarrow> app_state" where
  "ticks 0 s = s"
| "ticks (Suc n) s = tick (ticks n s)"

text \<open>
  What can happen while the button is in its rendered form: the interval fires, the user
  changes the key or edits the text (\<open>action\<close>), or the user starts a generation, which
  runs from admission to the settling of the call with only actions in between
  (\<open>Generate\<close>: the actions during the call, the date read by \<open>incrementUsage\<close>, and the
  outcome of the call).
\<close>

datatype action = Tick | ChangeKey key_facility jsstring | TextChange jsstring

datatype event = Act action | Generate "action list" jsstring outcome

fun do_action :: "action \<Rightarrow> app_state \<Rightarrow> app_state" where
  "do_action Tick s = tick s"
| "do_action (ChangeKey f today) s = fst (handleChangeApiKey f today s)"
| "do_action (TextChange v) s = handleTextChange v s"

definition do_actions :: "action list \<Rightarrow> app_state \<Rightarrow> app_state" where
  "do_actions as s = foldl (\<lambda>st a. do_action a st) s as"

fun do_event :: "event \<Rightarrow> app_state \<Rightarrow> app_state" where
  "do_event (Act a) s = do_action a s"
| "do_event (Generate as today out) s =
     (case handleGenerate_begin s of
        (s', None) \<Rightarrow> do_actions as s'
      | (s', Some p) \<Rightarrow> handleGenerate_settle p today out (do_actions as s'))"

definition run :: "event list \<Rightarrow> app_state \<Rightarrow> app_state" where
  "run evs s = foldl (\<lambda>st e. do_event e st) s evs"

section \<open>Concrete states and inputs of the examples\<close>

definition day1 :: jsstring where
  "day1 = str ''2025-03-01''"

definition day2 :: jsstring where
  "day2 = str ''2025-03-02''"

definition sample_audio :: GeneratedAudio where
  "sample_audio = \<lparr>wavUrl = str ''blob:1'', base64Audio = str ''UklGRg==''\<rparr>"

definition synth_ok :: "jsstring \<Rightarrow> jsstring \<Rightarrow> outcome" where
  "synth_ok t v = Resolved sample_audio"

text \<open>A freshly mounted component with \<open>hi\<close> typed into the text box.\<close>

definition ready_state :: app_state where
  "ready_state = handleTextChange (str ''hi'') (mount day1 Map.empty)"

text \<open>A component that has produced audio, with 800 requests today and 10 this minute.\<close>

definition used_state :: app_state where
  "used_state =
     ready_state\<lparr>status := SUCCESS, generatedAudio := Some sample_audio,
       dailyRequests := Num 800, minuteRequests := 10, secondsUntilReset := 23,
       localStorage := [storageKey day1 \<mapsto> str ''800'']\<rparr>"

text \<open>
  A session opened on \<open>day1\<close> that makes one successful generation on \<open>day1\<close> and, kept
  open, one more on \<open>day2\<close>.
\<close>

definition after_day1 :: app_state where
  "after_day1 = handleGenerate synth_ok day1 ready_state"

definition after_day2 :: app_state where
  "after_day2 = handleGenerate synth_ok day2 after_day1"

text \<open>A session opened on \<open>day1\<close> with 7 requests already recorded for that day.\<close>

definition carried_state :: app_state where
  "carried_state =
     handleTextChange (str ''hi'') (mount day1 [storageKey day1 \<mapsto> str ''7''])"

definition quota_err :: js_thrown where
  "quota_err = ErrorObject (Str (str ''got 429 from upstream'')) Undefined"

definition network_err :: js_thrown where
  "network_err = ErrorObject (Str (str ''Network down'')) (Number 503)"

definition bare_err :: js_thrown where
  "bare_err = ErrorObject Undefined Undefined"

text \<open>A collaborator whose promise rejects with \<open>undefined\<close>, as \<open>Promise.reject()\<close> does.\<close>

definition synth_rejects_undefined :: "jsstring \<Rightarrow> jsstring \<Rightarrow> outcome" where
  "synth_rejects_undefined t v = Rejected (Value Undefined)"

text \<open>A collaborator that rejects with an object whose \<open>message\<close> is the number 503.\<close>

definition synth_rejects_code :: "jsstring \<Rightarrow> jsstring \<Rightarrow> outcome" where
  "synth_rejects_code t v = Rejected (ErrorObject (Number 503) Undefined)"

section \<open>Facts about the string and number functions\<close>

lemma starts_with_iff: "starts_with s p \<longleftrightarrow> (\<exists>post. s = p @ post)"
  by (induction s p rule: starts_with.induct) auto

lemma js_includes_iff: "js_includes s sub \<longleftrightarrow> (\<exists>pre post. s = pre @ sub @ post)"
proof (induction s)
  case Nil
  then show ?case by (auto simp: starts_with_iff)
next
  case (Cons c cs)
  show ?case
  proof
    assume "js_includes (c # cs) sub"
    then consider "starts_with (c # cs) sub" | "js_includes cs sub" by auto
    then show "\<exists>pre post. c # cs = pre @ sub @ post"
    proof cases
      case 1
      then obtain post where "c # cs = sub @ post" by (auto simp: starts_with_iff)
      then have "c # cs = [] @ sub @ post" by simp
      then show ?thesis by blast
    next
      case 2
      then obtain pre post where "cs = pre @ sub @ post" using Cons.IH by blast
      then have "c # cs = (c # pre) @ sub @ post" by simp
      then show ?thesis by blast
    qed
  next
    assume "\<exists>pre post. c # cs = pre @ sub @ post"
    then obtain pre post where e: "c # cs = pre @ sub @ post" by blast
    show "js_includes (c # cs) sub"
    proof (cases pre)
      case Nil
      with e have "starts_with (c # cs) sub" by (auto simp: starts_with_iff)
      then show ?thesis by simp
    next
      case (Cons a pre')
      with e have "cs = pre' @ sub @ post" by simp
      then have "js_includes cs sub" using Cons.IH by blast
      then show ?thesis by simp
    qed
  qed
qed

lemma js_trim_empty_iff: "js_trim s = [] \<longleftrightarrow> (\<forall>c \<in> set s. is_ws c)"
proof
  assume "js_trim s = []"
  then have a: "\<forall>c \<in> set (dropWhile is_ws s). is_ws c"
    by (simp add: js_trim_def)
  have "dropWhile is_ws s = []"
  proof (rule ccontr)
    assume n: "dropWhile is_ws s \<noteq> []"
    then have "\<not> is_ws (hd (dropWhile is_ws s))" by (rule hd_dropWhile)
    moreover from n have "hd (dropWhile is_ws s) \<in> set (dropWhile is_ws s)" by simp
    ultimately show False using a by blast
  qed
  then show "\<forall>c \<in> set s. is_ws c" by simp
next
  assume "\<forall>c \<in> set s. is_ws c"
  then have d: "dropWhile is_ws s = []" by simp
  show "js_trim s = []" unfolding js_trim_def d by simp
qed

lemma denial_messages_distinct:
  "MSG_EMPTY \<noteq> MSG_DAILY" "MSG_EMPTY \<noteq> MSG_MINUTE n" "MSG_DAILY \<noteq> MSG_MINUTE n"
  by (simp_all add: MSG_EMPTY_def MSG_DAILY_def MSG_MINUTE_def str_def)

lemma num_lt_not_ge: "num_lt d k \<Longrightarrow> \<not> num_ge d k"
  by (cases d) auto

lemma ready_state_eq:
  "ready_state = \<lparr>selectedVoice = str ''Kore'', text_input = str ''hi'', targetDuration = [],
      status = IDLE, generatedAudio = None, errorMsg = None, dailyRequests = Num 0,
      minuteRequests = 0, secondsUntilReset = 60, localStorage = Map.empty\<rparr>"
  by (simp add: ready_state_def handleTextChange_def mount_def loadDailyUsage_def
      initial_state_def defaultVoice_def VOICES_def str_def)

section \<open>Admission\<close>

text \<open>
  Claim C1. Admission is decided in a fixed order: text that is empty after trimming is
  refused with the empty-input message; otherwise a daily count of 1500 or more is
  refused with the daily-limit message; otherwise a minute count of 15 or more is
  refused with the minute-limit message; otherwise the call is admitted. A refusal makes
  no synthesis call; with a daily count below 1500, a minute count below 15 and text
  that is not empty after trimming, the synthesis collaborator is called with the text
  and the selected voice.
\<close>

theorem handleGenerate_admission_order:
  "(js_trim (text_input s) = [] \<longrightarrow>
      handleGenerate_begin s = (s\<lparr>errorMsg := Some MSG_EMPTY\<rparr>, None)) \<and>
   (js_trim (text_input s) \<noteq> [] \<and> num_ge (dailyRequests s) 1500 \<longrightarrow>
      handleGenerate_begin s = (s\<lparr>errorMsg := Some MSG_DAILY\<rparr>, None)) \<and>
   (js_trim (text_input s) \<noteq> [] \<and> \<not> num_ge (dailyRequests s) 1500 \<and>
    minuteRequests s \<ge> 15 \<longrightarrow>
      handleGenerate_begin s =
        (s\<lparr>errorMsg := Some (MSG_MINUTE (secondsUntilReset s))\<rparr>, None)) \<and>
   (js_trim (text_input s) \<noteq> [] \<and> \<not> num_ge (dailyRequests s) 1500 \<and>
    \<not> minuteRequests s \<ge> 15 \<longrightarrow>
      snd (handleGenerate_begin s) =
        Some \<lparr>call_text = text_input s, call_voice = selectedVoice s,
              captured_daily = dailyRequests s\<rparr>) \<and>
   (js_trim (text_input s) \<noteq> [] \<and> num_lt (dailyRequests s) 1500 \<and>
    minuteRequests s < 15 \<longrightarrow>
      snd (handleGenerate_begin s) =
        Some \<lparr>call_text = text_input s, call_voice = selectedVoice s,
              captured_daily = dailyRequests s\<rparr> \<and>
      (\<forall>synth today. handleGenerate synth today s =
         handleGenerate_settle (the (snd (handleGenerate_begin s))) today
           (synth (text_input s) (selectedVoice s)) (fst (handleGenerate_begin s)))) \<and>
   (snd (handleGenerate_begin s) = None \<longrightarrow>
      (\<forall>synth today. handleGenerate synth today s = fst (handleGenerate_begin s)))"
proof -
  have lt: "num_lt (dailyRequests s) 1500 \<Longrightarrow> \<not> num_ge (dailyRequests s) 1500"
    by (rule num_lt_not_ge)
  show ?thesis
    using lt
    by (auto simp: handleGenerate_begin_def handleGenerate_def DAILY_REQUEST_LIMIT_def
        MINUTE_REQUEST_LIMIT_def)
qed

theorem handleGenerate_admission_order_witness:
  "handleGenerate_begin (ready_state\<lparr>text_input := str ''  ''\<rparr>) =
     (ready_state\<lparr>text_input := str ''  '', errorMsg := Some MSG_EMPTY\<rparr>, None) \<and>
   handleGenerate_begin (ready_state\<lparr>dailyRequests := Num 1500, minuteRequests := 15\<rparr>) =
     (ready_state\<lparr>dailyRequests := Num 1500, minuteRequests := 15,
        errorMsg := Some MSG_DAILY\<rparr>, None) \<and>
   handleGenerate_begin (ready_state\<lparr>minuteRequests := 15, secondsUntilReset := 42\<rparr>) =
     (ready_state\<lparr>minuteRequests := 15, secondsUntilReset := 42,
        errorMsg := Some (MSG_MINUTE 42)\<rparr>, None) \<and>
   snd (handleGenerate_begin (ready_state\<lparr>dailyRequests := Num 1499, minuteRequests := 14\<rparr>)) =
     Some \<lparr>call_text = str ''hi'', call_voice = str ''Kore'', captured_daily = Num 1499\<rparr>"
proof -
  have t1: "js_trim (text_input (ready_state\<lparr>text_input := str ''  ''\<rparr>)) = []"
    by (simp add: js_trim_def str_def is_ws_def)
  have t2: "js_trim (text_input ready_state) \<noteq> []"
    by (simp add: ready_state_eq js_trim_def str_def is_ws_def)
  have c1: "handleGenerate_begin (ready_state\<lparr>text_input := str ''  ''\<rparr>) =
     (ready_state\<lparr>text_input := str ''  '', errorMsg := Some MSG_EMPTY\<rparr>, None)"
    using handleGenerate_admission_order [of "ready_state\<lparr>text_input := str ''  ''\<rparr>"] t1
    by simp
  have c2: "handleGenerate_begin (ready_state\<lparr>dailyRequests := Num 1500, minuteRequests := 15\<rparr>) =
     (ready_state\<lparr>dailyRequests := Num 1500, minuteRequests := 15,
        errorMsg := Some MSG_DAILY\<rparr>, None)"
    using handleGenerate_admission_order
      [of "ready_state\<lparr>dailyRequests := Num 1500, minuteRequests := 15\<rparr>"] t2
    by simp
  have c3: "handleGenerate_begin (ready_state\<lparr>minuteRequests := 15, secondsUntilReset := 42\<rparr>) =
     (ready_state\<lparr>minuteRequests := 15, secondsUntilReset := 42,
        errorMsg := Some (MSG_MINUTE 42)\<rparr>, None)"
    using handleGenerate_admission_order
      [of "ready_state\<lparr>minuteRequests := 15, secondsUntilReset := 42\<rparr>"] t2
    by (simp add: ready_state_eq)
  have c4: "snd (handleGenerate_begin (ready_state\<lparr>dailyRequests := Num 1499, minuteRequests := 14\<rparr>)) =
     Some \<lparr>call_text = str ''hi'', call_voice = str ''Kore'', captured_daily = Num 1499\<rparr>"
    using handleGenerate_admission_order
      [of "ready_state\<lparr>dailyRequests := Num 1499, minuteRequests := 14\<rparr>"] t2
    by (simp add: ready_state_eq)
  from c1 c2 c3 c4 show ?thesis by blast
qed

text \<open>
  Claim C9. A generate call that is refused before the synthesis call changes nothing
  but the error message: the generation state, the result, both counters, the countdown
  and the persisted records are as before, so a refusal never sets \<open>ERROR\<close> or
  \<open>GENERATING\<close>.
\<close>

theorem denial_sets_only_the_error:
  assumes "handleGenerate_begin s = (s', None)"
  shows "(\<exists>m. s' = s\<lparr>errorMsg := Some m\<rparr>) \<and> status s' = status s \<and>
         generatedAudio s' = generatedAudio s \<and> minuteRequests s' = minuteRequests s \<and>
         dailyRequests s' = dailyRequests s \<and> localStorage s' = localStorage s \<and>
         secondsUntilReset s' = secondsUntilReset s \<and>
         (\<forall>synth today. handleGenerate synth today s = s')"
  using assms
  by (auto simp: handleGenerate_begin_def handleGenerate_def split: if_splits)

theorem denial_sets_only_the_error_witness:
  "handleGenerate_begin (ready_state\<lparr>status := SUCCESS, minuteRequests := 15\<rparr>) =
     (ready_state\<lparr>status := SUCCESS, minuteRequests := 15,
        errorMsg := Some (MSG_MINUTE 60)\<rparr>, None) \<and>
   status (ready_state\<lparr>status := SUCCESS, minuteRequests := 15,
        errorMsg := Some (MSG_MINUTE 60)\<rparr>) = SUCCESS \<and>
   handleGenerate synth_ok day1 (ready_state\<lparr>status := SUCCESS, minuteRequests := 15\<rparr>) =
     ready_state\<lparr>status := SUCCESS, minuteRequests := 15, errorMsg := Some (MSG_MINUTE 60)\<rparr>"
proof -
  have b: "handleGenerate_begin (ready_state\<lparr>status := SUCCESS, minuteRequests := 15\<rparr>) =
     (ready_state\<lparr>status := SUCCESS, minuteRequests := 15,
        errorMsg := Some (MSG_MINUTE 60)\<rparr>, None)"
    by (simp add: handleGenerate_begin_def ready_state_eq js_trim_def str_def is_ws_def
        DAILY_REQUEST_LIMIT_def MINUTE_REQUEST_LIMIT_def)
  from denial_sets_only_the_error [OF b] b show ?thesis
    by simp
qed

text \<open>
  Claim C10. Without the key-selection facility \<open>handleChangeApiKey\<close> resets nothing:
  every state cell and the persisted records are left as they were, and only the
  notification is shown.
\<close>

theorem rotate_unavailable_changes_nothing:
  "handleChangeApiKey Unavailable today s = (s, Some MSG_KEY_UNAVAILABLE)"
  by simp

section \<open>The minute window\<close>

lemma tick_cases:
  "tick s = (if secondsUntilReset s - 1 < 1 then s\<lparr>minuteRequests := 0, secondsUntilReset := 60\<rparr>
             else s\<lparr>secondsUntilReset := secondsUntilReset s - 1\<rparr>)"
  by (simp add: tick_def)

lemma tick_positive: "1 \<le> secondsUntilReset (tick s)"
  by (simp add: tick_def)

lemma ticks_countdown:
  assumes "secondsUntilReset s = 60"
  shows "k < 60 \<Longrightarrow> ticks k s = s\<lparr>secondsUntilReset := 60 - int k\<rparr>"
proof (induction k)
  case 0
  with assms show ?case by simp
next
  case (Suc k)
  then have "ticks k s = s\<lparr>secondsUntilReset := 60 - int k\<rparr>" by simp
  moreover from Suc.prems have "\<not> 60 - int k \<le> 1" by simp
  ultimately show ?case by (simp add: tick_def)
qed

lemma ticks_positive: "1 \<le> secondsUntilReset s \<Longrightarrow> 1 \<le> secondsUntilReset (ticks k s)"
  by (cases k) (simp_all add: tick_positive)

text \<open>
  Claim C5. A tick lowers \<open>secondsUntilReset\<close> by 1, except that a tick that would take
  it below 1 sets the minute count to 0 and \<open>secondsUntilReset\<close> to 60 at once. From a
  minute count of 0 and 60 seconds, the ticks pass through 59, 58, ..., 1 and the 60th
  tick restores the starting state; \<open>secondsUntilReset\<close> is never 0 after a tick.
\<close>

theorem minute_window_cycle:
  "(secondsUntilReset s - 1 \<ge> 1 \<longrightarrow>
      tick s = s\<lparr>secondsUntilReset := secondsUntilReset s - 1\<rparr>) \<and>
   (secondsUntilReset s - 1 < 1 \<longrightarrow>
      tick s = s\<lparr>minuteRequests := 0, secondsUntilReset := 60\<rparr>) \<and>
   secondsUntilReset (tick s) \<noteq> 0 \<and>
   (minuteRequests s = 0 \<and> secondsUntilReset s = 60 \<longrightarrow>
      (\<forall>k<60. ticks k s = s\<lparr>secondsUntilReset := 60 - int k\<rparr>) \<and>
      ticks 60 s = s \<and>
      (\<forall>k. secondsUntilReset (ticks k s) \<noteq> 0))"
proof -
  have a: "secondsUntilReset (tick s) \<noteq> 0"
    using tick_positive [of s] by simp
  have b: "ticks 60 s = s \<and> (\<forall>k<60. ticks k s = s\<lparr>secondsUntilReset := 60 - int k\<rparr>) \<and>
      (\<forall>k. secondsUntilReset (ticks k s) \<noteq> 0)"
    if m: "minuteRequests s = 0" and c: "secondsUntilReset s = 60"
  proof -
    have "ticks 59 s = s\<lparr>secondsUntilReset := 60 - int 59\<rparr>"
      using ticks_countdown [OF c, of 59] by simp
    then have "tick (ticks 59 s) = s\<lparr>minuteRequests := 0, secondsUntilReset := 60\<rparr>"
      by (simp add: tick_def)
    moreover have "s\<lparr>minuteRequests := 0, secondsUntilReset := 60\<rparr> = s"
      using m c by (cases s) simp
    moreover have "ticks 60 s = tick (ticks 59 s)"
    proof -
      have "(60::nat) = Suc 59" by simp
      then show ?thesis by (simp only: ticks.simps)
    qed
    ultimately have r: "ticks 60 s = s" by simp
    have p: "secondsUntilReset (ticks k s) \<noteq> 0" for k
      using ticks_positive [of s k] c by simp
    from r p ticks_countdown [OF c] show ?thesis by blast
  qed
  show ?thesis using a b by (simp add: tick_def)
qed

theorem minute_window_cycle_witness:
  "ticks 60 (initial_state Map.empty) = initial_state Map.empty \<and>
   secondsUntilReset (ticks 1 (initial_state Map.empty)) = 59 \<and>
   secondsUntilReset (ticks 59 (initial_state Map.empty)) = 1 \<and>
   tick (ready_state\<lparr>minuteRequests := 7, secondsUntilReset := 1\<rparr>) =
     ready_state\<lparr>minuteRequests := 0, secondsUntilReset := 60\<rparr> \<and>
   tick (ready_state\<lparr>minuteRequests := 7, secondsUntilReset := 2\<rparr>) =
     ready_state\<lparr>minuteRequests := 7, secondsUntilReset := 1\<rparr>"
proof -
  have h: "minuteRequests (initial_state Map.empty) = 0 \<and>
           secondsUntilReset (initial_state Map.empty) = 60"
    by (simp add: initial_state_def)
  have c1: "ticks 60 (initial_state Map.empty) = initial_state Map.empty \<and>
   secondsUntilReset (ticks 1 (initial_state Map.empty)) = 59 \<and>
   secondsUntilReset (ticks 59 (initial_state Map.empty)) = 1"
    using minute_window_cycle [of "initial_state Map.empty"] h by simp
  have c2: "tick (ready_state\<lparr>minuteRequests := 7, secondsUntilReset := 1\<rparr>) =
     ready_state\<lparr>minuteRequests := 0, secondsUntilReset := 60\<rparr>"
    using minute_window_cycle [of "ready_state\<lparr>minuteRequests := 7, secondsUntilReset := 1\<rparr>"]
    by simp
  have c3: "tick (ready_state\<lparr>minuteRequests := 7, secondsUntilReset := 2\<rparr>) =
     ready_state\<lparr>minuteRequests := 7, secondsUntilReset := 1\<rparr>"
    using minute_window_cycle [of "ready_state\<lparr>minuteRequests := 7, secondsUntilReset := 2\<rparr>"]
    by simp
  from c1 c2 c3 show ?thesis by blast
qed

section \<open>Changing the key\<close>

lemma used_state_eq:
  "used_state = \<lparr>selectedVoice = str ''Kore'', text_input = str ''hi'', targetDuration = [],
      status = SUCCESS, generatedAudio = Some sample_audio, errorMsg = None,
      dailyRequests = Num 800, minuteRequests = 10, secondsUntilReset = 23,
      localStorage = [storageKey day1 \<mapsto> str ''800'']\<rparr>"
  by (simp add: used_state_def ready_state_eq)

text \<open>
  Claim C7, as stated, at \<open>used_state\<close>: changing the key does not clear the current
  result artifact.
\<close>

theorem rotate_keeps_result_counterexample:
  "generatedAudio (fst (handleChangeApiKey (Available True) day1 used_state)) \<noteq> None"
  by (simp add: used_state_eq)

text \<open>
  Claim C7, amended. When the key-selection facility is available and the selection
  completes, then from every prior state the generation state is \<open>IDLE\<close>, the error is
  cleared, the daily count is 0, the minute count is 0 with 60 seconds until reset, and
  the persisted daily record of the current date is removed (it loads as 0); the current
  result artifact is kept as it was.
\<close>

theorem rotate_available_resets:
  "status (fst (handleChangeApiKey (Available True) today s)) = IDLE \<and>
   errorMsg (fst (handleChangeApiKey (Available True) today s)) = None \<and>
   dailyRequests (fst (handleChangeApiKey (Available True) today s)) = Num 0 \<and>
   minuteRequests (fst (handleChangeApiKey (Available True) today s)) = 0 \<and>
   secondsUntilReset (fst (handleChangeApiKey (Available True) today s)) = 60 \<and>
   localStorage (fst (handleChangeApiKey (Available True) today s)) (storageKey today) = None \<and>
   dailyRequests (loadDailyUsage today (fst (handleChangeApiKey (Available True) today s))) = Num 0 \<and>
   generatedAudio (fst (handleChangeApiKey (Available True) today s)) = generatedAudio s"
  by (simp add: loadDailyUsage_def)

section \<open>Failures of the synthesis call\<close>

lemma quota_message_has_429: "js_includes MSG_QUOTA (str ''429'')"
  by (simp add: MSG_QUOTA_def str_def)

lemma fallback_is_not_quota_message: "MSG_FAILED \<noteq> MSG_QUOTA"
  by (simp add: MSG_FAILED_def MSG_QUOTA_def str_def)

text \<open>Whatever is thrown, the block sets \<open>ERROR\<close> and touches at most the message.\<close>

lemma catch_frame:
  "fst (handleGenerate_catch err s) =
     s\<lparr>status := ERROR, errorMsg := errorMsg (fst (handleGenerate_catch err s))\<rparr>"
  by (simp add: handleGenerate_catch_def Let_def
      split: sum.splits bool.splits js_value.splits)

lemma catch_keeps_counters:
  "status (fst (handleGenerate_catch err s)) = ERROR \<and>
   dailyRequests (fst (handleGenerate_catch err s)) = dailyRequests s \<and>
   minuteRequests (fst (handleGenerate_catch err s)) = minuteRequests s \<and>
   secondsUntilReset (fst (handleGenerate_catch err s)) = secondsUntilReset s \<and>
   generatedAudio (fst (handleGenerate_catch err s)) = generatedAudio s \<and>
   localStorage (fst (handleGenerate_catch err s)) = localStorage s"
  by (simp add: handleGenerate_catch_def Let_def
      split: sum.splits bool.splits js_value.splits)

text \<open>When the block throws, and what it leaves behind then.\<close>

lemma catch_throws_iff:
  "snd (handleGenerate_catch err s) = Some TypeError \<longleftrightarrow>
     err = Value Undefined \<or> err = Value Null \<or>
     (\<exists>m st. err = ErrorObject m st \<and> m \<noteq> Undefined \<and> m \<noteq> Null \<and> (\<forall>t. m \<noteq> Str t))"
proof (cases err)
  case (Value v)
  then show ?thesis
    by (cases v) (simp_all add: handleGenerate_catch_def is_quota_error_def Let_def)
next
  case (ErrorObject m st)
  then show ?thesis
    by (cases m)
      (auto simp: handleGenerate_catch_def is_quota_error_def Let_def split: bool.splits)
qed

lemma catch_throw_sets_no_message:
  assumes "snd (handleGenerate_catch err s) \<noteq> None"
  shows "fst (handleGenerate_catch err s) = s\<lparr>status := ERROR\<rparr>"
  using assms
  by (auto simp: handleGenerate_catch_def Let_def
      split: sum.splits bool.splits js_value.splits)

text \<open>
  A rejection with an object whose \<open>message\<close> is a string or nullish: the quota message
  exactly when the message contains \<open>429\<close> or \<open>RESOURCE_EXHAUSTED\<close> or the status is 429,
  otherwise the message itself, or the fallback when it is nullish or empty.
\<close>

lemma catch_classifies_text:
  "handleGenerate_catch (ErrorObject (Str m) st) s =
     (if (\<exists>pre post. m = pre @ str ''429'' @ post) \<or> st = Number 429 \<or>
         (\<exists>pre post. m = pre @ str ''RESOURCE_EXHAUSTED'' @ post)
      then s\<lparr>status := ERROR, errorMsg := Some MSG_QUOTA\<rparr>
      else s\<lparr>status := ERROR, errorMsg := Some (if m = [] then MSG_FAILED else m)\<rparr>, None)"
  by (simp add: handleGenerate_catch_def is_quota_error_def Let_def
      js_includes_iff [symmetric] split: bool.splits)

lemma catch_classifies_no_message:
  assumes "m = Undefined \<or> m = Null"
  shows "handleGenerate_catch (ErrorObject m st) s =
     (if st = Number 429 then s\<lparr>status := ERROR, errorMsg := Some MSG_QUOTA\<rparr>
      else s\<lparr>status := ERROR, errorMsg := Some MSG_FAILED\<rparr>, None)"
  using assms
  by (auto simp: handleGenerate_catch_def is_quota_error_def Let_def)

text \<open>A rejection with a string, number or boolean has no \<open>message\<close>: the fallback.\<close>

lemma catch_primitive:
  assumes "v \<noteq> Undefined" "v \<noteq> Null"
  shows "handleGenerate_catch (Value v) s = (s\<lparr>status := ERROR, errorMsg := Some MSG_FAILED\<rparr>, None)"
  using assms
  by (cases v) (simp_all add: handleGenerate_catch_def is_quota_error_def Let_def)

text \<open>
  Claim C8, at a rejection with \<open>undefined\<close> and at one whose \<open>message\<close> is the number
  503: the \<open>catch\<close> block sets \<open>ERROR\<close> and then throws, so no message is shown, not
  even the fallback.
\<close>

theorem rejection_without_text_surfaces_nothing:
  "status (handleGenerate synth_rejects_undefined day1 ready_state) = ERROR \<and>
   errorMsg (handleGenerate synth_rejects_undefined day1 ready_state) = None \<and>
   snd (handleGenerate_catch (Value Undefined) (fst (handleGenerate_begin ready_state))) =
     Some TypeError \<and>
   status (handleGenerate synth_rejects_code day1 ready_state) = ERROR \<and>
   errorMsg (handleGenerate synth_rejects_code day1 ready_state) = None \<and>
   snd (handleGenerate_catch (ErrorObject (Number 503) Undefined)
          (fst (handleGenerate_begin ready_state))) = Some TypeError"
  by (simp add: ready_state_eq handleGenerate_def handleGenerate_begin_def
      handleGenerate_settle_def handleGenerate_catch_def is_quota_error_def
      synth_rejects_undefined_def synth_rejects_code_def js_trim_def str_def is_ws_def
      DAILY_REQUEST_LIMIT_def MINUTE_REQUEST_LIMIT_def)

section \<open>The minute count and re-entry\<close>

lemma do_action_minute_bound:
  "0 \<le> k \<Longrightarrow> minuteRequests s \<le> k \<Longrightarrow> minuteRequests (do_action a s) \<le> k"
proof (cases a)
  case Tick
  assume "0 \<le> k" "minuteRequests s \<le> k"
  with Tick show ?thesis by (simp add: tick_def)
next
  case (ChangeKey f today)
  assume "0 \<le> k" "minuteRequests s \<le> k"
  with ChangeKey show ?thesis
    by (cases "(f, today, s)" rule: handleChangeApiKey.cases) auto
next
  case (TextChange v)
  assume "0 \<le> k" "minuteRequests s \<le> k"
  with TextChange show ?thesis
    by (simp add: handleTextChange_def Let_def split: option.splits)
qed

lemma do_actions_minute_bound:
  "0 \<le> k \<Longrightarrow> minuteRequests s \<le> k \<Longrightarrow> minuteRequests (do_actions as s) \<le> k"
  unfolding do_actions_def
  by (induction as arbitrary: s) (simp_all add: do_action_minute_bound)

lemma begin_minute_unchanged:
  "minuteRequests (fst (handleGenerate_begin s)) = minuteRequests s"
  by (simp add: handleGenerate_begin_def)

lemma begin_admitted_below_limit:
  "handleGenerate_begin s = (s', Some p) \<Longrightarrow> minuteRequests s' \<le> 14"
  by (auto simp: handleGenerate_begin_def MINUTE_REQUEST_LIMIT_def split: if_splits)

lemma settle_minute:
  "minuteRequests (handleGenerate_settle p today out s) =
     (case out of Resolved a \<Rightarrow> minuteRequests s + 1 | Rejected e \<Rightarrow> minuteRequests s)"
  by (simp add: handleGenerate_settle_def incrementUsage_def Let_def catch_keeps_counters
      split: outcome.splits)

lemma do_event_minute_bound:
  assumes "minuteRequests s \<le> 15"
  shows "minuteRequests (do_event e s) \<le> 15"
proof (cases e)
  case (Act a)
  with assms show ?thesis by (simp add: do_action_minute_bound)
next
  case (Generate as today out)
  obtain s' r where b: "handleGenerate_begin s = (s', r)" by (cases "handleGenerate_begin s")
  show ?thesis
  proof (cases r)
    case None
    from b have "minuteRequests s' = minuteRequests s"
      using begin_minute_unchanged [of s] by simp
    with assms have "minuteRequests (do_actions as s') \<le> 15"
      by (simp add: do_actions_minute_bound)
    with Generate b None show ?thesis by simp
  next
    case (Some p)
    with b have "minuteRequests s' \<le> 14" by (simp add: begin_admitted_below_limit)
    then have "minuteRequests (do_actions as s') \<le> 14"
      by (simp add: do_actions_minute_bound)
    then have "minuteRequests (handleGenerate_settle p today out (do_actions as s')) \<le> 15"
      by (simp add: settle_minute split: outcome.splits)
    with Generate b Some show ?thesis by simp
  qed
qed

lemma run_minute_bound:
  "minuteRequests s \<le> 15 \<Longrightarrow> minuteRequests (run evs s) \<le> 15"
  unfolding run_def
  by (induction evs arbitrary: s) (simp_all add: do_event_minute_bound)

text \<open>
  Claim C4, as stated, at a minute count of 15: the increment yields 16, not
  \<open>min (15 + 1) 15\<close>.
\<close>

theorem increment_not_saturating_counterexample:
  "minuteRequests (incrementUsage (Num 0) day1 (ready_state\<lparr>minuteRequests := 15\<rparr>)) \<noteq>
     min (15 + 1) MINUTE_REQUEST_LIMIT"
  by (simp add: incrementUsage_def MINUTE_REQUEST_LIMIT_def)

text \<open>
  Claim C4, amended. The increment adds exactly 1 and has no ceiling of its own. The
  minute count stays at most 15 because admission refuses at 15: from a count of at most
  15, it is at most 15 after every sequence of ticks, key changes, text edits and
  generation cycles that go through admission one at a time.
\<close>

theorem minute_count_bounded_by_admission:
  "minuteRequests (incrementUsage d today s) = minuteRequests s + 1 \<and>
   (minuteRequests s \<le> MINUTE_REQUEST_LIMIT \<longrightarrow>
      minuteRequests (run evs s) \<le> MINUTE_REQUEST_LIMIT)"
  using run_minute_bound [of s evs]
  by (simp add: incrementUsage_def Let_def MINUTE_REQUEST_LIMIT_def)

theorem minute_count_bounded_by_admission_witness:
  "minuteRequests (incrementUsage (Num 0) day1 (ready_state\<lparr>minuteRequests := 15\<rparr>)) = 16 \<and>
   minuteRequests (ready_state\<lparr>minuteRequests := 14\<rparr>) \<le> MINUTE_REQUEST_LIMIT \<and>
   minuteRequests (run [Generate [Tick] day1 (Resolved sample_audio),
                        Generate [] day1 (Resolved sample_audio), Act Tick]
                     (ready_state\<lparr>minuteRequests := 14\<rparr>)) \<le> MINUTE_REQUEST_LIMIT"
proof -
  have h: "minuteRequests (ready_state\<lparr>minuteRequests := 14\<rparr>) \<le> MINUTE_REQUEST_LIMIT"
    by (simp add: MINUTE_REQUEST_LIMIT_def)
  have a: "minuteRequests (incrementUsage (Num 0) day1 (ready_state\<lparr>minuteRequests := 15\<rparr>)) = 16"
    using minute_count_bounded_by_admission
      [of "Num 0" day1 "ready_state\<lparr>minuteRequests := 15\<rparr>" "[]"]
    by simp
  have b: "minuteRequests (run [Generate [Tick] day1 (Resolved sample_audio),
                        Generate [] day1 (Resolved sample_audio), Act Tick]
                     (ready_state\<lparr>minuteRequests := 14\<rparr>)) \<le> MINUTE_REQUEST_LIMIT"
    using minute_count_bounded_by_admission
      [of "Num 0" day1 "ready_state\<lparr>minuteRequests := 14\<rparr>"
          "[Generate [Tick] day1 (Resolved sample_audio),
            Generate [] day1 (Resolved sample_audio), Act Tick]"] h
    by blast
  from h a b show ?thesis by blast
qed





section \<open>The daily count\<close>

lemma settle_success:
  "handleGenerate_settle p today (Resolved a) s =
     s\<lparr>generatedAudio := Some a, status := SUCCESS,
       dailyRequests := num_plus1 (captured_daily p),
       localStorage := (localStorage s)
          (storageKey today \<mapsto> num_toString (num_plus1 (captured_daily p))),
       minuteRequests := minuteRequests s + 1\<rparr>"
  by (simp add: handleGenerate_settle_def incrementUsage_def Let_def)

lemma settle_failure_counters:
  "dailyRequests (handleGenerate_settle p today (Rejected e) s) = dailyRequests s \<and>
   minuteRequests (handleGenerate_settle p today (Rejected e) s) = minuteRequests s \<and>
   localStorage (handleGenerate_settle p today (Rejected e) s) = localStorage s \<and>
   status (handleGenerate_settle p today (Rejected e) s) = ERROR"
  by (simp add: handleGenerate_settle_def catch_keeps_counters)

lemma storageKey_days: "storageKey day1 \<noteq> storageKey day2"
  by (simp add: storageKey_def day1_def day2_def str_def)

lemma after_day1_eq:
  "after_day1 = \<lparr>selectedVoice = str ''Kore'', text_input = str ''hi'', targetDuration = [],
      status = SUCCESS, generatedAudio = Some sample_audio, errorMsg = None,
      dailyRequests = Num 1, minuteRequests = 1, secondsUntilReset = 60,
      localStorage = [storageKey day1 \<mapsto> str ''1'']\<rparr>"
  by (simp add: after_day1_def ready_state_eq handleGenerate_def handleGenerate_begin_def
      settle_success synth_ok_def js_trim_def is_ws_def DAILY_REQUEST_LIMIT_def
      MINUTE_REQUEST_LIMIT_def int_toString_def nat_toString.simps str_def)

lemma after_day2_eq:
  "after_day2 = \<lparr>selectedVoice = str ''Kore'', text_input = str ''hi'', targetDuration = [],
      status = SUCCESS, generatedAudio = Some sample_audio, errorMsg = None,
      dailyRequests = Num 2, minuteRequests = 2, secondsUntilReset = 60,
      localStorage = [storageKey day1 \<mapsto> str ''1'', storageKey day2 \<mapsto> str ''2'']\<rparr>"
  by (simp add: after_day2_def after_day1_eq handleGenerate_def handleGenerate_begin_def
      settle_success synth_ok_def js_trim_def is_ws_def DAILY_REQUEST_LIMIT_def
      MINUTE_REQUEST_LIMIT_def int_toString_def nat_toString.simps str_def)

text \<open>
  Claim C6, at a session opened on \<open>day1\<close> and kept open: after one success on \<open>day1\<close>
  the record of \<open>day1\<close> holds 1 and is preserved, but on \<open>day2\<close> the count in use is
  still 1 and the next success records 2 under \<open>day2\<close>; only a new mount on \<open>day2\<close>
  reads 0.
\<close>

theorem daily_count_carried_into_next_day:
  "dailyRequests (mount day1 Map.empty) = Num 0 \<and>
   dailyRequests after_day1 = Num 1 \<and>
   localStorage after_day1 (storageKey day1) = Some (str ''1'') \<and>
   localStorage after_day1 (storageKey day2) = None \<and>
   dailyRequests after_day2 = Num 2 \<and>
   localStorage after_day2 (storageKey day2) = Some (str ''2'') \<and>
   localStorage after_day2 (storageKey day1) = Some (str ''1'') \<and>
   dailyRequests (mount day2 (localStorage after_day1)) = Num 0"
  using storageKey_days
  by (simp add: after_day1_eq after_day2_eq mount_def loadDailyUsage_def initial_state_def)

lemma carried_state_eq:
  "carried_state = \<lparr>selectedVoice = str ''Kore'', text_input = str ''hi'', targetDuration = [],
      status = IDLE, generatedAudio = None, errorMsg = None,
      dailyRequests = Num 7, minuteRequests = 0, secondsUntilReset = 60,
      localStorage = [storageKey day1 \<mapsto> str ''7'']\<rparr>"
  by (simp add: carried_state_def handleTextChange_def mount_def loadDailyUsage_def
      initial_state_def defaultVoice_def VOICES_def parseInt10_def is_ws_def is_digit_def
      digits_value_def str_def)

text \<open>
  Claim C2, at a session opened on \<open>day1\<close> with 7 requests recorded and kept open: a
  success on \<open>day2\<close> takes the persisted count of \<open>day2\<close> from 0 to 8, while the
  minute count rises by 1.
\<close>

theorem success_after_date_change_persists_stale_count:
  "dailyRequests (loadDailyUsage day2 carried_state) = Num 0 \<and>
   localStorage (handleGenerate synth_ok day2 carried_state) (storageKey day2) =
     Some (str ''8'') \<and>
   dailyRequests (loadDailyUsage day2 (handleGenerate synth_ok day2 carried_state)) = Num 8 \<and>
   minuteRequests (handleGenerate synth_ok day2 carried_state) = minuteRequests carried_state + 1"
proof -
  have g: "handleGenerate synth_ok day2 carried_state =
     carried_state\<lparr>errorMsg := None, generatedAudio := Some sample_audio, status := SUCCESS,
       dailyRequests := Num 8,
       localStorage := [storageKey day1 \<mapsto> str ''7'', storageKey day2 \<mapsto> str ''8''],
       minuteRequests := 1\<rparr>"
    by (simp add: carried_state_eq handleGenerate_def handleGenerate_begin_def
      settle_success synth_ok_def js_trim_def is_ws_def DAILY_REQUEST_LIMIT_def
      MINUTE_REQUEST_LIMIT_def int_toString_def nat_toString.simps str_def)
  have p: "parseInt10 (str ''8'') = Num 8"
    by (simp add: parseInt10_def is_ws_def is_digit_def digits_value_def str_def)
  have n: "str ''8'' \<noteq> []" by (simp add: str_def)
  show ?thesis
    unfolding g using storageKey_days p n
    by (simp add: carried_state_eq loadDailyUsage_def)
qed

end
